theory Spec2Isabelle
  imports Complex_Main
begin

section \<open>Sentiment analyzer: a shallow embedding of \<^verbatim>\<open>sentiment_analyzer.py\<close>\<close>

text \<open>
  The class \<^verbatim>\<open>SentimentAnalyzer\<close> fuses the output of two library scorers (NLTK's
  VADER and TextBlob), a per-sentence tally and a keyword matcher into one label and one
  confidence value.

  Conventions of the model.
  \<^item> A text is a \<open>string\<close>: a list of characters, each read as one code point in the range
    U+0000 to U+00FF. Lowercasing and the whitespace class are the ones Python applies to
    these code points.
  \<^item> Python floats are read as exact real numbers; binary rounding is not part of the model.
  \<^item> Python integers that count things are natural numbers.
  \<^item> The library calls (\<^verbatim>\<open>polarity_scores\<close>, \<^verbatim>\<open>TextBlob(...).sentiment\<close>,
    \<^verbatim>\<open>sent_tokenize\<close>, \<^verbatim>\<open>word_tokenize\<close>, \<^verbatim>\<open>lemmatize\<close>, the stopword set) are not
    code of the repository. They are the fields of a record \<open>env\<close> that every operation of
    the analyzer object takes, the way the methods take \<^verbatim>\<open>self\<close>.
\<close>

subsection \<open>Characters and strings\<close>

definition isspace :: "char \<Rightarrow> bool" where
  \<comment> \<open>\<^verbatim>\<open>str.isspace\<close> and the class \<^verbatim>\<open>\s\<close> of \<^verbatim>\<open>re\<close> on one code point below 256\<close>
  "isspace c =
     (let n = (of_char c :: nat)
      in (9 \<le> n \<and> n \<le> 13) \<or> (28 \<le> n \<and> n \<le> 32) \<or> n = 133 \<or> n = 160)"

definition is_ascii_letter :: "char \<Rightarrow> bool" where
  \<comment> \<open>the class \<^verbatim>\<open>a-zA-Z\<close>\<close>
  "is_ascii_letter c =
     (let n = (of_char c :: nat)
      in (65 \<le> n \<and> n \<le> 90) \<or> (97 \<le> n \<and> n \<le> 122))"

definition lower_char :: "char \<Rightarrow> char" where
  \<comment> \<open>\<^verbatim>\<open>str.lower\<close> on one code point below 256: A-Z and the accented capitals
      U+00C0..U+00DE (the multiplication sign U+00D7 apart) move up by 32\<close>
  "lower_char c =
     (let n = (of_char c :: nat)
      in if (65 \<le> n \<and> n \<le> 90) \<or> (192 \<le> n \<and> n \<le> 222 \<and> n \<noteq> 215)
         then char_of (n + 32) else c)"

definition lower :: "string \<Rightarrow> string" where
  "lower s = map lower_char s"

fun startswith :: "string \<Rightarrow> string \<Rightarrow> bool" where
  "startswith s [] = True"
| "startswith [] (p # ps) = False"
| "startswith (c # cs) (p # ps) = (c = p \<and> startswith cs ps)"

fun contains :: "string \<Rightarrow> string \<Rightarrow> bool" where
  \<comment> \<open>\<^verbatim>\<open>sub in s\<close>\<close>
  "contains [] sub = (sub = [])"
| "contains (c # cs) sub = (startswith (c # cs) sub \<or> contains cs sub)"

fun split_from :: "string \<Rightarrow> string \<Rightarrow> string list" where
  \<comment> \<open>the scan of \<^verbatim>\<open>str.split()\<close>; the first argument is the word being read\<close>
  "split_from w [] = (if w = [] then [] else [w])"
| "split_from w (c # cs) =
     (if isspace c then (if w = [] then split_from [] cs else w # split_from [] cs)
      else split_from (w @ [c]) cs)"

definition split :: "string \<Rightarrow> string list" where
  "split s = split_from [] s"

fun join :: "string \<Rightarrow> string list \<Rightarrow> string" where
  \<comment> \<open>\<^verbatim>\<open>sep.join(words)\<close>\<close>
  "join sep [] = []"
| "join sep [w] = w"
| "join sep (w # v # ws) = w @ sep @ join sep (v # ws)"

definition strip :: "string \<Rightarrow> string" where
  "strip s = rev (dropWhile isspace (rev (dropWhile isspace s)))"

subsection \<open>The three substitutions of \<^verbatim>\<open>preprocess_text\<close>\<close>

text \<open>
  \<^verbatim>\<open>re.sub(pattern, '', s)\<close> scans \<open>s\<close> from the left. Where the pattern matches it drops
  the match and goes on behind it; elsewhere it keeps the character and moves one
  position on. A pattern is given by its matcher: the length of the match that starts at
  the head of the string, if there is one.
\<close>

fun re_sub_delete :: "(string \<Rightarrow> nat option) \<Rightarrow> string \<Rightarrow> string" where
  "re_sub_delete m [] = []"
| "re_sub_delete m (c # cs) =
     (case m (c # cs) of
        None \<Rightarrow> c # re_sub_delete m cs
      | Some 0 \<Rightarrow> c # re_sub_delete m cs
      | Some (Suc n) \<Rightarrow> re_sub_delete m (drop n cs))"

definition nonspace_run :: "string \<Rightarrow> string" where
  \<comment> \<open>what a greedy \<^verbatim>\<open>\S+\<close> or \<^verbatim>\<open>\S*\<close> reads at the head of the string\<close>
  "nonspace_run s = takeWhile (\<lambda>c. \<not> isspace c) s"

definition match_literal_run :: "string \<Rightarrow> string \<Rightarrow> nat option" where
  \<comment> \<open>a literal followed by \<^verbatim>\<open>\S+\<close>\<close>
  "match_literal_run lit s =
     (if startswith s lit \<and> nonspace_run (drop (length lit) s) \<noteq> []
      then Some (length lit + length (nonspace_run (drop (length lit) s)))
      else None)"

definition match_url :: "string \<Rightarrow> nat option" where
  \<comment> \<open>\<^verbatim>\<open>http\S+|www\S+|https\S+\<close>: the alternatives are tried in this order\<close>
  "match_url s =
     (case match_literal_run ''http'' s of
        Some n \<Rightarrow> Some n
      | None \<Rightarrow>
          (case match_literal_run ''www'' s of
             Some n \<Rightarrow> Some n
           | None \<Rightarrow> match_literal_run ''https'' s))"

definition match_email :: "string \<Rightarrow> nat option" where
  \<comment> \<open>\<^verbatim>\<open>\S+@\S+\<close>: the run of non-space characters at the head matches as a whole when
      an @ stands in it that is neither its first nor its last character\<close>
  "match_email s =
     (let run = nonspace_run s
      in if CHR ''@'' \<in> set (butlast (tl run)) then Some (length run) else None)"

definition keep_char :: "char \<Rightarrow> bool" where
  \<comment> \<open>the characters that \<^verbatim>\<open>[^a-zA-Z\s!?.]\<close> does not match\<close>
  "keep_char c = (is_ascii_letter c \<or> isspace c \<or> c = CHR ''!'' \<or> c = CHR ''?'' \<or> c = CHR ''.'')"

subsection \<open>The library environment\<close>

record sia_scores =
  pos :: real
  neg :: real
  neu :: real
  sia_compound :: real

record blob_sentiment =
  blob_polarity :: real
  blob_subjectivity :: real

record env =
  polarity_scores :: "string \<Rightarrow> sia_scores"
  textblob :: "string \<Rightarrow> blob_sentiment"
  sent_tokenize :: "string \<Rightarrow> string list"
  word_tokenize :: "string \<Rightarrow> string list"
  lemmatize :: "string \<Rightarrow> string"
  stop_words :: "string set"

subsection \<open>Rounding\<close>

definition round_half_even :: "real \<Rightarrow> int" where
  "round_half_even y =
     (let f = \<lfloor>y\<rfloor>; d = y - of_int f
      in if d < 1/2 then f else if 1/2 < d then f + 1 else if even f then f else f + 1)"

definition round3 :: "real \<Rightarrow> real" where
  \<comment> \<open>\<^verbatim>\<open>round(x, 3)\<close>: the nearest multiple of one thousandth, a tie going to the even one\<close>
  "round3 x = of_int (round_half_even (x * 1000)) / 1000"

subsection \<open>\<^verbatim>\<open>preprocess_text\<close>\<close>

definition preprocess_text :: "env \<Rightarrow> string \<Rightarrow> string list \<times> string" where
  "preprocess_text e text =
     (let text_lower = lower text;
          text_cleaned = re_sub_delete match_url text_lower;
          text_cleaned = re_sub_delete match_email text_cleaned;
          text_cleaned = filter keep_char text_cleaned;
          text_cleaned = join '' '' (split text_cleaned);
          tokens = word_tokenize e text_cleaned;
          processed_tokens =
            map (lemmatize e)
              (filter (\<lambda>token. lower token \<notin> stop_words e \<and> 2 < length token) tokens)
      in (processed_tokens, text_cleaned))"

subsection \<open>The two scorers and the sentence classifier\<close>

record vader_scores =
  positive :: real
  negative :: real
  neutral :: real
  compound :: real

record textblob_scores =
  polarity :: real
  subjectivity :: real

definition analyze_sentiment_vader :: "env \<Rightarrow> string \<Rightarrow> vader_scores" where
  "analyze_sentiment_vader e text =
     (let scores = polarity_scores e text
      in \<lparr>positive = round3 (pos scores), negative = round3 (neg scores),
          neutral = round3 (neu scores), compound = round3 (sia_compound scores)\<rparr>)"

definition analyze_sentiment_textblob :: "env \<Rightarrow> string \<Rightarrow> textblob_scores" where
  "analyze_sentiment_textblob e text =
     (let blob = textblob e text
      in \<lparr>polarity = round3 (blob_polarity blob),
          subjectivity = round3 (blob_subjectivity blob)\<rparr>)"

definition classify_sentiment :: "real \<Rightarrow> string" where
  "classify_sentiment compound_score =
     (if 0.05 \<le> compound_score then ''positive''
      else if compound_score \<le> - 0.05 then ''negative''
      else ''neutral'')"

subsection \<open>The keyword matcher\<close>

definition strong_negative_phrases :: "string list" where
  "strong_negative_phrases =
     [''rubbish'', ''utter rubbish'', ''complete rubbish'', ''total rubbish'',
      ''hopeless'', ''completely hopeless'', ''utterly hopeless'',
      ''waste of'', ''waste of time'', ''waste of money'', ''waste of film'',
      ''terrible'', ''horrible'', ''awful'', ''dreadful'', ''atrocious'',
      ''error of judgment'', ''huge error'', ''big mistake'', ''disaster'',
      ''pathetic'', ''abysmal'', ''appalling'', ''disgraceful'',
      ''should hand in'', ''should resign'', ''should quit'',
      ''unacceptable'', ''inexcusable'', ''unforgivable'',
      ''disappointing'', ''disappointed'', ''disappointment'',
      ''bitterly disappointing'', ''hugely disappointing'', ''let down'', ''letdown'',
      ''to my disappointment'', ''what a disappointment'',
      ''sad sight'', ''bad imitation'', ''poor imitation'',
      ''pretty weak'', ''very weak'', ''quite weak'', ''weak storyline'', ''weak plot'',
      ''not very good'', ''not that good'', ''not so good'', ''isnt that good'',
      ''didn't laugh'', ''didnt laugh'', ''never laughed'',
      ''boring'', ''tedious'', ''dull'', ''bland'', ''mediocre'', ''forgettable'',
      ''wouldn't recommend'', ''would not recommend'', ''cannot recommend'',
      ''don't bother'', ''dont bother'', ''skip this'', ''avoid this'',
      ''not worth'', ''waste your time'', ''save your money'',
      ''fails to'', ''failed to'', ''lacks'', ''lacking'',
      ''worse than'', ''inferior to'', ''pales in comparison'',
      ''nothing like'', ''far from'', ''falls short'']"

definition strong_positive_phrases :: "string list" where
  "strong_positive_phrases =
     [''excellent'', ''outstanding'', ''brilliant'', ''fantastic'', ''amazing'',
      ''masterpiece'', ''incredible'', ''superb'', ''phenomenal'', ''extraordinary'',
      ''highly recommend'', ''must see'', ''must watch'', ''loved it'', ''love it'',
      ''best ever'', ''best movie'', ''best film'', ''thoroughly enjoyed'',
      ''blown away'', ''exceeded expectations'', ''pleasantly surprised'']"

definition hope_disappointment_patterns :: "string list" where
  "hope_disappointment_patterns =
     [''hoping'', ''hoped'', ''expected'', ''expecting'', ''wanted'',
      ''wished'', ''thought it would'', ''should have been'',
      ''could have been'', ''was supposed to'']"

definition count_phrases :: "string list \<Rightarrow> string \<Rightarrow> nat" where
  \<comment> \<open>\<^verbatim>\<open>sum(1 for phrase in phrases if phrase in text_lower)\<close>\<close>
  "count_phrases phrases text_lower = length (filter (contains text_lower) phrases)"

definition text_lower_of :: "string \<Rightarrow> string" where
  \<comment> \<open>\<^verbatim>\<open>text.lower() if text else ""\<close>\<close>
  "text_lower_of text = (if text \<noteq> [] then lower text else [])"

definition has_hope_disappointment :: "string \<Rightarrow> bool" where
  "has_hope_disappointment text_lower =
     list_ex (contains text_lower) hope_disappointment_patterns"

definition keyword_counts :: "string \<Rightarrow> nat \<times> nat" where
  \<comment> \<open>\<open>(negative_keyword_count, positive_keyword_count)\<close> as they stand after the
      hope-disappointment rule\<close>
  "keyword_counts text =
     (let text_lower = text_lower_of text;
          negative_keyword_count = count_phrases strong_negative_phrases text_lower;
          positive_keyword_count = count_phrases strong_positive_phrases text_lower
      in if has_hope_disappointment text_lower \<and> contains text_lower ''disappointment''
         then (negative_keyword_count + 1, nat (max 0 (int positive_keyword_count - 2)))
         else (negative_keyword_count, positive_keyword_count))"

definition keyword_adjustment :: "nat \<Rightarrow> nat \<Rightarrow> real" where
  "keyword_adjustment negative_keyword_count positive_keyword_count =
     (if positive_keyword_count < negative_keyword_count
      then - 0.1 * real (min negative_keyword_count 3)
      else if negative_keyword_count < positive_keyword_count
      then 0.1 * real (min positive_keyword_count 3)
      else 0)"

subsection \<open>The sentence tally\<close>

record sentence_record =
  sentence :: string
  sentiment :: string
  confidence :: real

record tally =
  positive_count :: nat
  negative_count :: nat
  neutral_count :: nat
  negative_intensity_sum :: real
  positive_intensity_sum :: real

definition tally_step :: "tally \<Rightarrow> sentence_record \<Rightarrow> tally" where
  "tally_step t sent =
     (if sentiment sent = ''positive''
      then t\<lparr>positive_count := positive_count t + 1,
             positive_intensity_sum := positive_intensity_sum t + confidence sent\<rparr>
      else if sentiment sent = ''negative''
      then t\<lparr>negative_count := negative_count t + 1,
             negative_intensity_sum := negative_intensity_sum t + confidence sent\<rparr>
      else t\<lparr>neutral_count := neutral_count t + 1\<rparr>)"

fun tally_loop :: "tally \<Rightarrow> sentence_record list \<Rightarrow> tally" where
  "tally_loop t [] = t"
| "tally_loop t (sent # rest) = tally_loop (tally_step t sent) rest"

definition tally_sentences :: "sentence_record list \<Rightarrow> tally" where
  "tally_sentences sentence_sentiments =
     tally_loop \<lparr>positive_count = 0, negative_count = 0, neutral_count = 0,
                 negative_intensity_sum = 0, positive_intensity_sum = 0\<rparr>
       sentence_sentiments"

definition sentence_balance :: "tally \<Rightarrow> real" where
  "sentence_balance t =
     (if 0 < positive_count t + negative_count t
      then (real (positive_count t) - real (negative_count t))
             / real (positive_count t + negative_count t)
      else 0)"

definition avg_negative_intensity :: "tally \<Rightarrow> real" where
  "avg_negative_intensity t =
     (if 0 < negative_count t then negative_intensity_sum t / real (negative_count t) else 0)"

definition avg_positive_intensity :: "tally \<Rightarrow> real" where
  "avg_positive_intensity t =
     (if 0 < positive_count t then positive_intensity_sum t / real (positive_count t) else 0)"

definition intensity_adjustment :: "tally \<Rightarrow> real" where
  "intensity_adjustment t =
     (if 0.5 < avg_negative_intensity t \<and> 2 \<le> negative_count t
      then - 0.15 * (avg_negative_intensity t - 0.5)
      else if 0.5 < avg_positive_intensity t \<and> 2 \<le> positive_count t
      then 0.15 * (avg_positive_intensity t - 0.5)
      else 0)"

subsection \<open>\<^verbatim>\<open>classify_overall_sentiment\<close>\<close>

definition combined_score ::
  "vader_scores \<Rightarrow> textblob_scores \<Rightarrow> sentence_record list \<Rightarrow> string \<Rightarrow> real" where
  "combined_score vs ts sentence_sentiments text =
     (let (negative_keyword_count, positive_keyword_count) = keyword_counts text;
          t = tally_sentences sentence_sentiments
      in compound vs * 0.30 +
         polarity ts * 0.15 +
         sentence_balance t * 0.25 +
         keyword_adjustment negative_keyword_count positive_keyword_count +
         intensity_adjustment t +
         (if (0 < compound vs \<and> polarity ts < 0) \<or> (compound vs < 0 \<and> 0 < polarity ts)
          then polarity ts * 0.10 else 0))"

definition overall_label :: "real \<Rightarrow> nat \<Rightarrow> nat \<Rightarrow> tally \<Rightarrow> string" where
  \<comment> \<open>the assignment of \<^verbatim>\<open>sentiment\<close>\<close>
  "overall_label score negative_keyword_count positive_keyword_count t =
     (if 0.12 \<le> score then ''positive''
      else if score \<le> - 0.08 then ''negative''
      else if positive_keyword_count < negative_keyword_count then ''negative''
      else if negative_keyword_count < positive_keyword_count then ''positive''
      else if positive_count t < negative_count t \<and> 0.3 < avg_negative_intensity t
      then ''negative''
      else if negative_count t < positive_count t \<and> 0.3 < avg_positive_intensity t
      then ''positive''
      else ''neutral'')"

definition keyword_boost :: "nat \<Rightarrow> nat \<Rightarrow> real \<Rightarrow> real" where
  "keyword_boost negative_keyword_count positive_keyword_count c =
     (if 2 \<le> negative_keyword_count \<or> 2 \<le> positive_keyword_count
      then min (c + 0.2) 1.0 else c)"

definition agreement_boost :: "real \<Rightarrow> real \<Rightarrow> real \<Rightarrow> real \<Rightarrow> real" where
  "agreement_boost cmp pol bal c =
     (if (0 < cmp \<and> 0 < pol \<and> 0 < bal) \<or> (cmp < 0 \<and> pol < 0 \<and> bal < 0)
      then min (c * 1.2) 1.0 else c)"

definition classify_overall_sentiment ::
  "vader_scores \<Rightarrow> textblob_scores \<Rightarrow> sentence_record list \<Rightarrow> string \<Rightarrow> string \<times> real" where
  "classify_overall_sentiment vs ts sentence_sentiments text =
     (let (negative_keyword_count, positive_keyword_count) = keyword_counts text;
          t = tally_sentences sentence_sentiments;
          score = combined_score vs ts sentence_sentiments text;
          label = overall_label score negative_keyword_count positive_keyword_count t;
          c = \<bar>score\<bar>;
          c = keyword_boost negative_keyword_count positive_keyword_count c;
          c = agreement_boost (compound vs) (polarity ts) (sentence_balance t) c
      in (label, round3 c))"

subsection \<open>\<^verbatim>\<open>get_detailed_analysis\<close>\<close>

record analysis =
  overall_sentiment :: string
  overall_confidence :: real
  vader :: vader_scores
  textblob_result :: textblob_scores
  processed_tokens :: "string list"
  token_count :: nat
  sentence_count :: nat
  sentence_analysis :: "sentence_record list"
  cleaned_text :: string

definition sentence_entry :: "env \<Rightarrow> string \<Rightarrow> sentence_record" where
  \<comment> \<open>the body of the loop over \<^verbatim>\<open>sentences\<close>\<close>
  "sentence_entry e s =
     (let sent_scores = analyze_sentiment_vader e s
      in \<lparr>sentence = strip s,
          sentiment = classify_sentiment (compound sent_scores),
          confidence = \<bar>compound sent_scores\<bar>\<rparr>)"

definition get_detailed_analysis :: "env \<Rightarrow> string \<Rightarrow> analysis" where
  "get_detailed_analysis e text =
     (let (tokens, cleaned) = preprocess_text e text;
          vs = analyze_sentiment_vader e text;
          ts = analyze_sentiment_textblob e text;
          sentences = sent_tokenize e text;
          sentence_sentiments = map (sentence_entry e) sentences;
          (label, c) = classify_overall_sentiment vs ts sentence_sentiments text
      in \<lparr>overall_sentiment = label,
          overall_confidence = c,
          vader = vs,
          textblob_result = ts,
          processed_tokens = tokens,
          token_count = length tokens,
          sentence_count = length sentences,
          sentence_analysis = sentence_sentiments,
          cleaned_text = cleaned\<rparr>)"

subsection \<open>The specification's reading of the fusion\<close>

text \<open>
  The definitions below follow the words of the specification, not the code: the
  sentences of one label, the mean confidence of a group of sentences, and the steps of
  the fusion stated over them. The theorems compare them with the definitions above.
\<close>

definition spec_labelled :: "string \<Rightarrow> sentence_record list \<Rightarrow> sentence_record list" where
  "spec_labelled l ss = filter (\<lambda>s. sentiment s = l) ss"

definition spec_mean_confidence :: "sentence_record list \<Rightarrow> real" where
  "spec_mean_confidence ss =
     (if ss = [] then 0 else sum_list (map confidence ss) / real (length ss))"

definition spec_sentence_balance :: "sentence_record list \<Rightarrow> real" where
  "spec_sentence_balance ss =
     (let pos_count = length (spec_labelled ''positive'' ss);
          neg_count = length (spec_labelled ''negative'' ss)
      in if 0 < pos_count + neg_count
         then (real pos_count - real neg_count) / real (pos_count + neg_count)
         else 0)"

definition spec_intensity_adjustment :: "sentence_record list \<Rightarrow> real" where
  "spec_intensity_adjustment ss =
     (let avg_neg_intensity = spec_mean_confidence (spec_labelled ''negative'' ss);
          avg_pos_intensity = spec_mean_confidence (spec_labelled ''positive'' ss)
      in if 0.5 < avg_neg_intensity \<and> 2 \<le> length (spec_labelled ''negative'' ss)
         then - 0.15 * (avg_neg_intensity - 0.5)
         else if 0.5 < avg_pos_intensity \<and> 2 \<le> length (spec_labelled ''positive'' ss)
         then 0.15 * (avg_pos_intensity - 0.5)
         else 0)"

definition spec_disagreement_bonus :: "real \<Rightarrow> real \<Rightarrow> real" where
  "spec_disagreement_bonus cmp pol =
     (if (0 < cmp \<and> pol < 0) \<or> (cmp < 0 \<and> 0 < pol) then pol * 0.10 else 0)"




subsection \<open>A small environment for concrete runs\<close>

text \<open>
  The theorems below hold for every environment. Where one of them is run on a concrete
  text, the libraries are replaced by this stand-in: two scorers that each know one word,
  one sentence per non-blank text, tokens split at whitespace, an identity lemmatizer and a
  stop list of five words. On the empty text it answers as the libraries do: all scores
  zero, no sentence, no token.
\<close>

definition sample_env :: env where
  "sample_env =
     \<lparr>polarity_scores = (\<lambda>s. if contains (lower s) ''rubbish''
                              then \<lparr>pos = 0.102, neg = 0.338, neu = 0.56, sia_compound = - 0.6542\<rparr>
                              else \<lparr>pos = 0, neg = 0, neu = 0, sia_compound = 0\<rparr>),
      textblob = (\<lambda>s. if contains (lower s) ''fine''
                       then \<lparr>blob_polarity = 0.0292, blob_subjectivity = 0.6\<rparr>
                       else \<lparr>blob_polarity = 0, blob_subjectivity = 0\<rparr>),
      sent_tokenize = (\<lambda>s. if strip s = [] then [] else [s]),
      word_tokenize = split,
      lemmatize = (\<lambda>w. w),
      stop_words = set [''the'', ''was'', ''but'', ''this'', ''and'']\<rparr>"

section \<open>Rounding and the sentence tally\<close>

lemma round_half_even_lower: "of_int a \<le> y \<Longrightarrow> a \<le> round_half_even y"
proof -
  assume "of_int a \<le> y"
  then have "a \<le> \<lfloor>y\<rfloor>" by (simp add: le_floor_iff)
  then show ?thesis by (simp add: round_half_even_def Let_def)
qed

lemma round_half_even_upper: "y \<le> of_int b \<Longrightarrow> round_half_even y \<le> b"
proof -
  assume h: "y \<le> of_int b"
  then have fb: "\<lfloor>y\<rfloor> \<le> b" by (simp add: floor_le_iff)
  show ?thesis
  proof (cases "\<lfloor>y\<rfloor> = b")
    case True
    then have "y - of_int \<lfloor>y\<rfloor> \<le> 0" using h by simp
    then show ?thesis using True by (simp add: round_half_even_def Let_def)
  next
    case False
    then have "\<lfloor>y\<rfloor> + 1 \<le> b" using fb by simp
    then show ?thesis using fb by (simp add: round_half_even_def Let_def)
  qed
qed

lemma round3_range: "of_int a \<le> x \<Longrightarrow> x \<le> of_int b \<Longrightarrow> of_int a \<le> round3 x \<and> round3 x \<le> of_int b"
proof -
  assume l: "of_int a \<le> x" and u: "x \<le> of_int b"
  have "of_int (a * 1000) \<le> x * 1000" using l by simp
  then have 1: "a * 1000 \<le> round_half_even (x * 1000)" by (rule round_half_even_lower)
  have "x * 1000 \<le> of_int (b * 1000)" using u by simp
  then have 2: "round_half_even (x * 1000) \<le> b * 1000" by (rule round_half_even_upper)
  have "real_of_int (a * 1000) \<le> real_of_int (round_half_even (x * 1000))"
    using 1 of_int_le_iff by blast
  moreover have "real_of_int (round_half_even (x * 1000)) \<le> real_of_int (b * 1000)"
    using 2 of_int_le_iff by blast
  ultimately show ?thesis by (simp add: round3_def)
qed

lemma round3_unit: "0 \<le> x \<Longrightarrow> x \<le> 1 \<Longrightarrow> 0 \<le> round3 x \<and> round3 x \<le> 1"
  using round3_range [of 0 x 1] by simp

lemma round3_signed_unit: "- 1 \<le> x \<Longrightarrow> x \<le> 1 \<Longrightarrow> - 1 \<le> round3 x \<and> round3 x \<le> 1"
  using round3_range [of "- 1" x 1] by simp

lemma tally_loop_positive_count:
  "positive_count (tally_loop t ss) = positive_count t + length (spec_labelled ''positive'' ss)"
  by (induction ss arbitrary: t) (simp_all add: tally_step_def spec_labelled_def)

lemma tally_loop_negative_count:
  "negative_count (tally_loop t ss) = negative_count t + length (spec_labelled ''negative'' ss)"
  by (induction ss arbitrary: t) (auto simp add: tally_step_def spec_labelled_def)

lemma tally_loop_positive_sum:
  "positive_intensity_sum (tally_loop t ss) =
     positive_intensity_sum t + sum_list (map confidence (spec_labelled ''positive'' ss))"
  by (induction ss arbitrary: t) (simp_all add: tally_step_def spec_labelled_def)

lemma tally_loop_negative_sum:
  "negative_intensity_sum (tally_loop t ss) =
     negative_intensity_sum t + sum_list (map confidence (spec_labelled ''negative'' ss))"
  by (induction ss arbitrary: t) (auto simp add: tally_step_def spec_labelled_def)

lemma positive_count_tally:
  "positive_count (tally_sentences ss) = length (spec_labelled ''positive'' ss)"
  by (simp add: tally_sentences_def tally_loop_positive_count)

lemma negative_count_tally:
  "negative_count (tally_sentences ss) = length (spec_labelled ''negative'' ss)"
  by (simp add: tally_sentences_def tally_loop_negative_count)

lemma avg_positive_tally:
  "avg_positive_intensity (tally_sentences ss) = spec_mean_confidence (spec_labelled ''positive'' ss)"
  by (simp add: avg_positive_intensity_def spec_mean_confidence_def positive_count_tally)
     (simp add: tally_sentences_def tally_loop_positive_sum)

lemma avg_negative_tally:
  "avg_negative_intensity (tally_sentences ss) = spec_mean_confidence (spec_labelled ''negative'' ss)"
  by (simp add: avg_negative_intensity_def spec_mean_confidence_def negative_count_tally)
     (simp add: tally_sentences_def tally_loop_negative_sum)

lemma sentence_balance_tally:
  "sentence_balance (tally_sentences ss) = spec_sentence_balance ss"
  by (simp add: sentence_balance_def spec_sentence_balance_def Let_def
        positive_count_tally negative_count_tally)

lemma intensity_adjustment_tally:
  "intensity_adjustment (tally_sentences ss) = spec_intensity_adjustment ss"
  by (simp add: intensity_adjustment_def spec_intensity_adjustment_def Let_def
        positive_count_tally negative_count_tally avg_positive_tally avg_negative_tally)

section \<open>Bounds on the signals\<close>

lemma sum_confidence_bounds:
  "list_all (\<lambda>s. 0 \<le> confidence s \<and> confidence s \<le> 1) ss \<Longrightarrow>
     0 \<le> sum_list (map confidence ss) \<and> sum_list (map confidence ss) \<le> real (length ss)"
  by (induction ss) auto

lemma spec_labelled_all:
  "list_all P ss \<Longrightarrow> list_all P (spec_labelled l ss)"
  by (induction ss) (auto simp add: spec_labelled_def)

lemma spec_mean_confidence_unit:
  assumes "list_all (\<lambda>s. 0 \<le> confidence s \<and> confidence s \<le> 1) ss"
  shows "0 \<le> spec_mean_confidence ss \<and> spec_mean_confidence ss \<le> 1"
proof (cases "ss = []")
  case True
  then show ?thesis by (simp add: spec_mean_confidence_def)
next
  case False
  then have len: "0 < real (length ss)" by simp
  from sum_confidence_bounds [OF assms] len show ?thesis
    using False by (simp add: spec_mean_confidence_def divide_le_eq)
qed

lemma spec_sentence_balance_unit:
  "- 1 \<le> spec_sentence_balance ss \<and> spec_sentence_balance ss \<le> 1"
  by (simp add: spec_sentence_balance_def Let_def divide_le_eq le_divide_eq)

lemma spec_intensity_adjustment_small:
  assumes "list_all (\<lambda>s. 0 \<le> confidence s \<and> confidence s \<le> 1) ss"
  shows "- 0.075 \<le> spec_intensity_adjustment ss \<and> spec_intensity_adjustment ss \<le> 0.075"
proof -
  have n: "spec_mean_confidence (spec_labelled ''negative'' ss) \<le> 1"
    using spec_mean_confidence_unit [OF spec_labelled_all [OF assms]] by simp
  have p: "spec_mean_confidence (spec_labelled ''positive'' ss) \<le> 1"
    using spec_mean_confidence_unit [OF spec_labelled_all [OF assms]] by simp
  show ?thesis unfolding spec_intensity_adjustment_def Let_def
    using n p by (auto simp add: field_simps)
qed


lemma keyword_adjustment_small:
  "n < 2 \<Longrightarrow> p < 2 \<Longrightarrow> - 0.1 \<le> keyword_adjustment n p \<and> keyword_adjustment n p \<le> 0.1"
  by (simp add: keyword_adjustment_def min_def)

lemma combined_score_unfold:
  "combined_score vs ts ss text =
     compound vs * 0.30 + polarity ts * 0.15 + spec_sentence_balance ss * 0.25 +
     keyword_adjustment (fst (keyword_counts text)) (snd (keyword_counts text)) +
     spec_intensity_adjustment ss + spec_disagreement_bonus (compound vs) (polarity ts)"
  by (simp add: combined_score_def Let_def case_prod_beta sentence_balance_tally
        intensity_adjustment_tally spec_disagreement_bonus_def)

lemma combined_score_unboosted_bound:
  assumes c: "- 1 \<le> compound vs" "compound vs \<le> 1"
    and p: "- 1 \<le> polarity ts" "polarity ts \<le> 1"
    and ss: "list_all (\<lambda>s. 0 \<le> confidence s \<and> confidence s \<le> 1) ss"
    and k: "fst (keyword_counts text) < 2" "snd (keyword_counts text) < 2"
  shows "\<bar>combined_score vs ts ss text\<bar> \<le> 1"
proof -
  note b = spec_sentence_balance_unit [of ss]
  note i = spec_intensity_adjustment_small [OF ss]
  note a = keyword_adjustment_small [OF k]
  show ?thesis
    unfolding combined_score_unfold spec_disagreement_bonus_def
    using c p b i a by (auto simp add: abs_le_iff)
qed

lemma keyword_boost_unit:
  "0 \<le> c \<Longrightarrow> (n < 2 \<Longrightarrow> p < 2 \<Longrightarrow> c \<le> 1) \<Longrightarrow>
     0 \<le> keyword_boost n p c \<and> keyword_boost n p c \<le> 1"
  by (auto simp add: keyword_boost_def)

lemma agreement_boost_unit:
  "0 \<le> c \<Longrightarrow> c \<le> 1 \<Longrightarrow>
     0 \<le> agreement_boost cmp pol bal c \<and> agreement_boost cmp pol bal c \<le> 1"
  by (auto simp add: agreement_boost_def)

lemma classify_unfold:
  "classify_overall_sentiment vs ts ss text =
     (overall_label (combined_score vs ts ss text) (fst (keyword_counts text))
        (snd (keyword_counts text)) (tally_sentences ss),
      round3 (agreement_boost (compound vs) (polarity ts) (sentence_balance (tally_sentences ss))
        (keyword_boost (fst (keyword_counts text)) (snd (keyword_counts text))
           \<bar>combined_score vs ts ss text\<bar>)))"
  by (simp add: classify_overall_sentiment_def Let_def case_prod_beta)

lemma overall_label_cases:
  "overall_label s n p t = ''positive'' \<or> overall_label s n p t = ''negative'' \<or>
   overall_label s n p t = ''neutral''"
  by (simp add: overall_label_def)

lemma classify_confidence_unit:
  assumes c: "- 1 \<le> compound vs" "compound vs \<le> 1"
    and p: "- 1 \<le> polarity ts" "polarity ts \<le> 1"
    and ss: "list_all (\<lambda>s. 0 \<le> confidence s \<and> confidence s \<le> 1) ss"
  shows "0 \<le> snd (classify_overall_sentiment vs ts ss text) \<and>
         snd (classify_overall_sentiment vs ts ss text) \<le> 1"
proof -
  let ?n = "fst (keyword_counts text)" and ?p = "snd (keyword_counts text)"
  let ?s = "combined_score vs ts ss text"
  have k: "0 \<le> keyword_boost ?n ?p \<bar>?s\<bar> \<and> keyword_boost ?n ?p \<bar>?s\<bar> \<le> 1"
    by (rule keyword_boost_unit) (simp_all add: combined_score_unboosted_bound [OF c p ss])
  then have "0 \<le> agreement_boost (compound vs) (polarity ts) (sentence_balance (tally_sentences ss))
                (keyword_boost ?n ?p \<bar>?s\<bar>) \<and>
             agreement_boost (compound vs) (polarity ts) (sentence_balance (tally_sentences ss))
                (keyword_boost ?n ?p \<bar>?s\<bar>) \<le> 1"
    using agreement_boost_unit by blast
  then show ?thesis
    by (simp add: classify_unfold round3_unit)
qed

lemma sentence_entry_confidence:
  assumes "\<And>s. - 1 \<le> sia_compound (polarity_scores e s) \<and> sia_compound (polarity_scores e s) \<le> 1"
  shows "list_all (\<lambda>s. 0 \<le> confidence s \<and> confidence s \<le> 1) (map (sentence_entry e) sentences)"
proof -
  have "\<And>s. \<bar>round3 (sia_compound (polarity_scores e s))\<bar> \<le> 1"
    using round3_signed_unit assms by (simp add: abs_le_iff)
  then show ?thesis
    by (simp add: list_all_iff sentence_entry_def analyze_sentiment_vader_def Let_def)
qed

text \<open>
  Claim C1. For every text, the result of \<^verbatim>\<open>get_detailed_analysis\<close> has an
  \<open>overall_sentiment\<close> that is one of the strings positive, negative, neutral, and a
  confidence in the closed interval from 0 to 1. The two library scorers are taken within
  their documented range: the compound score and the polarity lie between -1 and 1. No
  clamp is needed where no boost fires: without the keyword boost both keyword counts are
  below 2, and the magnitude of the combined score is then at most 0.875.
\<close>

theorem analysis_label_and_confidence_range:
  assumes v: "\<And>s. - 1 \<le> sia_compound (polarity_scores e s) \<and> sia_compound (polarity_scores e s) \<le> 1"
    and b: "\<And>s. - 1 \<le> blob_polarity (textblob e s) \<and> blob_polarity (textblob e s) \<le> 1"
  shows "overall_sentiment (get_detailed_analysis e t) \<in> {''positive'', ''negative'', ''neutral''}
       \<and> 0 \<le> overall_confidence (get_detailed_analysis e t)
       \<and> overall_confidence (get_detailed_analysis e t) \<le> 1"
proof -
  let ?vs = "analyze_sentiment_vader e t" and ?ts = "analyze_sentiment_textblob e t"
  let ?ss = "map (sentence_entry e) (sent_tokenize e t)"
  have c: "- 1 \<le> compound ?vs" "compound ?vs \<le> 1"
    using round3_signed_unit v by (simp_all add: analyze_sentiment_vader_def Let_def)
  have p: "- 1 \<le> polarity ?ts" "polarity ?ts \<le> 1"
    using round3_signed_unit b by (simp_all add: analyze_sentiment_textblob_def Let_def)
  note conf = classify_confidence_unit [OF c p sentence_entry_confidence [OF v], of "sent_tokenize e t" t]
  have lab: "fst (classify_overall_sentiment ?vs ?ts ?ss t) \<in> {''positive'', ''negative'', ''neutral''}"
    using overall_label_cases by (simp add: classify_unfold)
  have o: "overall_sentiment (get_detailed_analysis e t) = fst (classify_overall_sentiment ?vs ?ts ?ss t)"
    by (simp add: get_detailed_analysis_def Let_def case_prod_beta)
  have oc: "overall_confidence (get_detailed_analysis e t) = snd (classify_overall_sentiment ?vs ?ts ?ss t)"
    by (simp add: get_detailed_analysis_def Let_def case_prod_beta)
  show ?thesis using conf lab by (simp add: o oc)
qed

section \<open>The fusion\<close>

text \<open>The theorem of claim C1 at the sample environment and a short review.\<close>

theorem analysis_range_witness:
  "(\<forall>s. - 1 \<le> sia_compound (polarity_scores sample_env s) \<and> sia_compound (polarity_scores sample_env s) \<le> 1)
   \<and> (\<forall>s. - 1 \<le> blob_polarity (textblob sample_env s) \<and> blob_polarity (textblob sample_env s) \<le> 1)
   \<and> overall_sentiment (get_detailed_analysis sample_env ''Fine acting, but utter rubbish.'')
        \<in> {''positive'', ''negative'', ''neutral''}
   \<and> 0 \<le> overall_confidence (get_detailed_analysis sample_env ''Fine acting, but utter rubbish.'')
   \<and> overall_confidence (get_detailed_analysis sample_env ''Fine acting, but utter rubbish.'') \<le> 1"
proof -
  have v: "\<And>s. - 1 \<le> sia_compound (polarity_scores sample_env s) \<and> sia_compound (polarity_scores sample_env s) \<le> 1"
    by (simp add: sample_env_def)
  have b: "\<And>s. - 1 \<le> blob_polarity (textblob sample_env s) \<and> blob_polarity (textblob sample_env s) \<le> 1"
    by (simp add: sample_env_def)
  from analysis_label_and_confidence_range [of sample_env "''Fine acting, but utter rubbish.''", OF v b] v b
  show ?thesis by blast
qed

text \<open>The whole result record of that run, computed.\<close>

lemma sample_run:
  "get_detailed_analysis sample_env ''Fine acting, but utter rubbish.'' =
     \<lparr>overall_sentiment = ''negative'', overall_confidence = 0.839,
      vader = \<lparr>positive = 0.102, negative = 0.338, neutral = 0.56, compound = - 0.654\<rparr>,
      textblob_result = \<lparr>polarity = 0.029, subjectivity = 0.6\<rparr>,
      processed_tokens = [''fine'', ''acting'', ''utter'', ''rubbish.''],
      token_count = 4, sentence_count = 1,
      sentence_analysis = [\<lparr>sentence = ''Fine acting, but utter rubbish.'', sentiment = ''negative'', confidence = 0.654\<rparr>],
      cleaned_text = ''fine acting but utter rubbish.''\<rparr>"
  by code_simp







text \<open>
  Claim C10. When compound, polarity or sentence balance is exactly 0, the agreement
  boost is not applied: the confidence returned is the keyword-boosted magnitude of the
  combined score, rounded.
\<close>

theorem zero_signal_blocks_agreement_boost:
  assumes "compound vs = 0 \<or> polarity ts = 0 \<or> sentence_balance (tally_sentences ss) = 0"
  shows "snd (classify_overall_sentiment vs ts ss text) =
           round3 (keyword_boost (fst (keyword_counts text)) (snd (keyword_counts text))
                     \<bar>combined_score vs ts ss text\<bar>)"
proof -
  have "agreement_boost (compound vs) (polarity ts) (sentence_balance (tally_sentences ss)) c = c" for c
    using assms by (auto simp add: agreement_boost_def)
  then show ?thesis by (simp add: classify_unfold)
qed

text \<open>
  The theorem of claim C10 where compound is 0.9, the one sentence is positive and the
  polarity is 0: the confidence 0.92 is 0.72 plus the keyword boost, not multiplied.
\<close>

theorem zero_signal_witness:
  "snd (classify_overall_sentiment
          \<lparr>positive = 0.4, negative = 0, neutral = 0.6, compound = 0.9\<rparr>
          \<lparr>polarity = 0, subjectivity = 0\<rparr>
          [\<lparr>sentence = ''Brilliant and superb.'', sentiment = ''positive'', confidence = 0.9\<rparr>]
          ''Brilliant and superb.'') = 0.92"
proof -
  have "snd (classify_overall_sentiment
          \<lparr>positive = 0.4, negative = 0, neutral = 0.6, compound = 0.9\<rparr>
          \<lparr>polarity = 0, subjectivity = 0\<rparr>
          [\<lparr>sentence = ''Brilliant and superb.'', sentiment = ''positive'', confidence = 0.9\<rparr>]
          ''Brilliant and superb.'') =
        round3 (keyword_boost (fst (keyword_counts ''Brilliant and superb.''))
                  (snd (keyword_counts ''Brilliant and superb.''))
                  \<bar>combined_score \<lparr>positive = 0.4, negative = 0, neutral = 0.6, compound = 0.9\<rparr>
                     \<lparr>polarity = 0, subjectivity = 0\<rparr>
                     [\<lparr>sentence = ''Brilliant and superb.'', sentiment = ''positive'', confidence = 0.9\<rparr>]
                     ''Brilliant and superb.''\<bar>)"
    by (rule zero_signal_blocks_agreement_boost) simp
  also have "\<dots> = 0.92" by code_simp
  finally show ?thesis .
qed

section \<open>Substrings and the cleaned text\<close>

lemma startswith_iff: "startswith s p \<longleftrightarrow> (\<exists>suf. s = p @ suf)"
  by (induction s p rule: startswith.induct) auto

lemma contains_iff: "contains s sub \<longleftrightarrow> (\<exists>pre suf. s = pre @ sub @ suf)"
proof (induction s)
  case Nil
  then show ?case by auto
next
  case (Cons c cs)
  show ?case
  proof
    assume "contains (c # cs) sub"
    then consider "startswith (c # cs) sub" | "contains cs sub" by auto
    then show "\<exists>pre suf. c # cs = pre @ sub @ suf"
    proof cases
      case 1
      then obtain suf where "c # cs = sub @ suf" using startswith_iff by blast
      then have "c # cs = [] @ sub @ suf" by simp
      then show ?thesis by blast
    next
      case 2
      then obtain pre suf where "cs = pre @ sub @ suf" using Cons.IH by blast
      then have "c # cs = (c # pre) @ sub @ suf" by simp
      then show ?thesis by blast
    qed
  next
    assume "\<exists>pre suf. c # cs = pre @ sub @ suf"
    then obtain pre suf where e: "c # cs = pre @ sub @ suf" by blast
    show "contains (c # cs) sub"
    proof (cases pre)
      case Nil
      then have "startswith (c # cs) sub" using e startswith_iff by auto
      then show ?thesis by simp
    next
      case (Cons a pre')
      then have "cs = pre' @ sub @ suf" using e by simp
      then have "contains cs sub" using Cons.IH by blast
      then show ?thesis by simp
    qed
  qed
qed

lemma text_lower_of_lower: "text_lower_of text = lower text"
  by (simp add: text_lower_of_def lower_def)

lemma split_from_chars:
  "w' \<in> set (split_from w s) \<Longrightarrow> c \<in> set w' \<Longrightarrow> c \<in> set w \<or> c \<in> set s"
proof (induction s arbitrary: w)
  case Nil
  then show ?case by (simp split: if_splits)
next
  case (Cons a s)
  show ?case
  proof (cases "isspace a")
    case True
    from Cons.prems True consider "w' = w" | "w' \<in> set (split_from [] s)"
      by (auto split: if_splits)
    then show ?thesis
    proof cases
      case 1
      then show ?thesis using Cons.prems by simp
    next
      case 2
      from Cons.IH [OF 2 Cons.prems(2)] show ?thesis by simp
    qed
  next
    case False
    then have "w' \<in> set (split_from (w @ [a]) s)" using Cons.prems by simp
    from Cons.IH [OF this Cons.prems(2)] show ?thesis by auto
  qed
qed

lemma join_chars:
  "set (join sep ws) \<subseteq> set sep \<union> \<Union> (set ` set ws)"
  by (induction sep ws rule: join.induct) auto

lemma cleaned_chars:
  "c \<in> set (join '' '' (split s)) \<Longrightarrow> c = CHR '' '' \<or> c \<in> set s"
proof -
  assume "c \<in> set (join '' '' (split s))"
  then have "c \<in> set '' '' \<union> \<Union> (set ` set (split s))" using join_chars by blast
  then consider "c = CHR '' ''" | w where "w \<in> set (split s)" "c \<in> set w" by auto
  then show ?thesis
  proof cases
    case 1
    then show ?thesis by simp
  next
    case 2
    then show ?thesis using split_from_chars [of w "[]" s c] by (simp add: split_def)
  qed
qed

lemma keep_char_space: "keep_char CHR '' ''"
  by (simp add: keep_char_def isspace_def)

lemma cleaned_text_eq:
  "snd (preprocess_text e text) =
     join '' '' (split (filter keep_char
       (re_sub_delete match_email (re_sub_delete match_url (lower text)))))"
  by (simp add: preprocess_text_def Let_def)

lemma cleaned_text_keep_char: "list_all keep_char (snd (preprocess_text e text))"
proof -
  let ?f = "filter keep_char (re_sub_delete match_email (re_sub_delete match_url (lower text)))"
  have "keep_char c" if "c \<in> set (join '' '' (split ?f))" for c
  proof -
    from cleaned_chars [OF that] consider "c = CHR '' ''" | "c \<in> set ?f" by blast
    then show ?thesis by cases (simp_all add: keep_char_space)
  qed
  then show ?thesis
    unfolding cleaned_text_eq list_all_iff by blast
qed

lemma keep_char_abs:
  "keep_char = (\<lambda>c. is_ascii_letter c \<or> isspace c \<or> c = CHR ''!'' \<or> c = CHR ''?'' \<or> c = CHR ''.'')"
  by (rule ext) (simp only: keep_char_def)

text \<open>
  Claim C9. \<^verbatim>\<open>preprocess_text\<close> lowercases, deletes the URL matches, deletes the e-mail
  matches, drops every character that is not an ASCII letter, whitespace or one of
  \<^verbatim>\<open>! ? .\<close>, collapses whitespace, tokenizes, drops the stopwords and the tokens of
  length at most 2, and lemmatizes, in this order. Every character of the cleaned text is
  a letter, whitespace or one of the three punctuation marks. On the empty text the cleaned
  text is empty, and the token list is empty when the tokenizer returns no token for the
  empty string.
\<close>

theorem preprocess_text_pipeline:
  "preprocess_text e text =
     (let cleaned = join '' '' (split (filter keep_char
                      (re_sub_delete match_email (re_sub_delete match_url (lower text)))))
      in (map (lemmatize e)
            (filter (\<lambda>token. lower token \<notin> stop_words e \<and> 2 < length token)
               (word_tokenize e cleaned)),
          cleaned))
   \<and> list_all (\<lambda>c. is_ascii_letter c \<or> isspace c \<or> c = CHR ''!'' \<or> c = CHR ''?'' \<or> c = CHR ''.'')
        (snd (preprocess_text e text))
   \<and> snd (preprocess_text e []) = []
   \<and> (word_tokenize e [] = [] \<longrightarrow> preprocess_text e [] = ([], []))"
proof (intro conjI impI)
  show "preprocess_text e text =
     (let cleaned = join '' '' (split (filter keep_char
                      (re_sub_delete match_email (re_sub_delete match_url (lower text)))))
      in (map (lemmatize e)
            (filter (\<lambda>token. lower token \<notin> stop_words e \<and> 2 < length token)
               (word_tokenize e cleaned)),
          cleaned))"
    by (simp add: preprocess_text_def Let_def)
  show "list_all (\<lambda>c. is_ascii_letter c \<or> isspace c \<or> c = CHR ''!'' \<or> c = CHR ''?'' \<or> c = CHR ''.'')
        (snd (preprocess_text e text))"
    using cleaned_text_keep_char [of e "text"] by (simp only: keep_char_abs)
  show "snd (preprocess_text e []) = []"
    by (simp add: preprocess_text_def Let_def lower_def split_def)
  show "preprocess_text e [] = ([], [])" if "word_tokenize e [] = []"
    using that by (simp add: preprocess_text_def Let_def lower_def split_def)
qed

text \<open>
  The theorem of claim C9 at the sample environment, with a run on a text that holds a
  URL, a bare host name, an e-mail address, digits and runs of blanks.
\<close>

theorem preprocess_text_witness:
  "word_tokenize sample_env [] = []
   \<and> preprocess_text sample_env [] = ([], [])
   \<and> preprocess_text sample_env ''See http://x.io/a?b=1 or WWW.x.io, mail Me@X.io -- it was 100% DULL...  Really!''
       = ([''see'', ''mail'', ''dull...'', ''really!''], ''see or mail it was dull... really!'')"
proof -
  have t: "word_tokenize sample_env [] = []"
    by (simp add: sample_env_def split_def)
  have r: "preprocess_text sample_env ''See http://x.io/a?b=1 or WWW.x.io, mail Me@X.io -- it was 100% DULL...  Really!''
       = ([''see'', ''mail'', ''dull...'', ''really!''], ''see or mail it was dull... really!'')"
    by code_simp
  from preprocess_text_pipeline [of sample_env "[]"] t
  have "preprocess_text sample_env [] = ([], [])" by (elim conjE) (rule mp)
  with t r show ?thesis by (intro conjI)
qed

section \<open>The empty text\<close>

lemma round3_zero: "round3 0 = 0"
  by (simp add: round3_def round_half_even_def)

lemma keyword_counts_empty: "keyword_counts [] = (0, 0)"
  by code_simp

lemma classify_empty:
  assumes "compound vs = 0" and "polarity ts = 0"
  shows "classify_overall_sentiment vs ts [] [] = (''neutral'', 0)"
proof -
  have s: "combined_score vs ts [] [] = 0"
    using assms
    by (simp add: combined_score_unfold keyword_counts_empty keyword_adjustment_def
          spec_sentence_balance_def spec_intensity_adjustment_def spec_labelled_def
          spec_mean_confidence_def spec_disagreement_bonus_def)
  have l: "overall_label 0 0 0 (tally_sentences []) = ''neutral''"
    by (simp add: overall_label_def tally_sentences_def)
  show ?thesis
    using assms
    by (simp add: classify_unfold s l keyword_counts_empty keyword_boost_def
          agreement_boost_def round3_zero)
qed

text \<open>
  Claim C8. On the empty string the analysis is the degenerate result: label neutral,
  confidence 0, no sentence, no token. The libraries are taken as they answer on the empty
  string: compound 0, polarity 0, no sentence, no token. The model is a total function, so
  nothing is raised by the analyzer's own code.
\<close>

theorem empty_text_analysis:
  assumes v: "sia_compound (polarity_scores e []) = 0"
    and b: "blob_polarity (textblob e []) = 0"
    and s: "sent_tokenize e [] = []"
    and w: "word_tokenize e [] = []"
  shows "overall_sentiment (get_detailed_analysis e []) = ''neutral''
       \<and> overall_confidence (get_detailed_analysis e []) = 0
       \<and> sentence_count (get_detailed_analysis e []) = 0
       \<and> token_count (get_detailed_analysis e []) = 0"
proof -
  have c: "compound (analyze_sentiment_vader e []) = 0"
    using v by (simp add: analyze_sentiment_vader_def Let_def round3_zero)
  have p: "polarity (analyze_sentiment_textblob e []) = 0"
    using b by (simp add: analyze_sentiment_textblob_def Let_def round3_zero)
  have pre: "preprocess_text e [] = ([], [])"
    using w by (simp add: preprocess_text_def Let_def lower_def split_def)
  show ?thesis
    by (simp add: get_detailed_analysis_def Let_def pre s classify_empty [OF c p])
qed

text \<open>The theorem of claim C8 at the sample environment.\<close>

theorem empty_text_witness:
  "sia_compound (polarity_scores sample_env []) = 0
   \<and> blob_polarity (textblob sample_env []) = 0
   \<and> sent_tokenize sample_env [] = []
   \<and> word_tokenize sample_env [] = []
   \<and> overall_sentiment (get_detailed_analysis sample_env []) = ''neutral''
   \<and> overall_confidence (get_detailed_analysis sample_env []) = 0
   \<and> sentence_count (get_detailed_analysis sample_env []) = 0
   \<and> token_count (get_detailed_analysis sample_env []) = 0"
proof -
  have v: "sia_compound (polarity_scores sample_env []) = 0" by (simp add: sample_env_def lower_def)
  have b: "blob_polarity (textblob sample_env []) = 0" by (simp add: sample_env_def lower_def)
  have s: "sent_tokenize sample_env [] = []" by (simp add: sample_env_def strip_def)
  have w: "word_tokenize sample_env [] = []" by (simp add: sample_env_def split_def)
  from empty_text_analysis [OF v b s w] v b s w show ?thesis by simp
qed

section \<open>The keyword rules\<close>


lemma keyword_counts_hope:
  "has_hope_disappointment (lower text) \<Longrightarrow> contains (lower text) ''disappointment'' \<Longrightarrow>
     keyword_counts text =
       (count_phrases strong_negative_phrases (lower text) + 1,
        nat (max 0 (int (count_phrases strong_positive_phrases (lower text)) - 2)))"
  by (simp add: keyword_counts_def Let_def text_lower_of_lower)

lemma hoping_example_counts:
  "count_phrases strong_negative_phrases
     (lower ''I was hoping for an excellent film but what a disappointment'') = 2
   \<and> count_phrases strong_positive_phrases
     (lower ''I was hoping for an excellent film but what a disappointment'') = 1
   \<and> keyword_counts ''I was hoping for an excellent film but what a disappointment'' = (3, 0)"
  by code_simp

text \<open>
  Claim C4. When an expectation-framing phrase occurs in the lowercased text and the
  phrase disappointment occurs too, the negative keyword count is the number of matched
  strong-negative phrases plus 1 and the positive keyword count is the number of matched
  strong-positive phrases minus 2, not below 0; these are the counts that enter the
  combined score. For the text about the excellent film the one positive match is
  cancelled: the counts are 3 and 0, and the keyword adjustment is -0.3.
\<close>

theorem expectation_framing_rule:
  assumes h: "\<exists>p \<in> set hope_disappointment_patterns. contains (lower text) p"
    and d: "contains (lower text) ''disappointment''"
  shows "fst (keyword_counts text) = count_phrases strong_negative_phrases (lower text) + 1
       \<and> int (snd (keyword_counts text)) =
           max 0 (int (count_phrases strong_positive_phrases (lower text)) - 2)
       \<and> combined_score vs ts ss text =
           compound vs * 0.30 + polarity ts * 0.15 + spec_sentence_balance ss * 0.25 +
           keyword_adjustment (count_phrases strong_negative_phrases (lower text) + 1)
             (nat (max 0 (int (count_phrases strong_positive_phrases (lower text)) - 2))) +
           spec_intensity_adjustment ss + spec_disagreement_bonus (compound vs) (polarity ts)
       \<and> count_phrases strong_positive_phrases
           (lower ''I was hoping for an excellent film but what a disappointment'') = 1
       \<and> keyword_counts ''I was hoping for an excellent film but what a disappointment'' = (3, 0)
       \<and> keyword_adjustment 3 0 = - 0.3"
proof -
  have hh: "has_hope_disappointment (lower text)"
    using h by (simp add: has_hope_disappointment_def list_ex_iff)
  note k = keyword_counts_hope [OF hh d]
  have a: "keyword_adjustment 3 0 = - 0.3" by (simp add: keyword_adjustment_def)
  show ?thesis
    using hoping_example_counts a by (simp add: combined_score_unfold k)
qed

text \<open>
  The theorem of claim C4 on a text with three strong-positive phrases: two matches are
  taken off, one stays.
\<close>

theorem expectation_framing_witness:
  "fst (keyword_counts ''We expected a brilliant, superb, fantastic sequel. What a disappointment.'') = 3
   \<and> snd (keyword_counts ''We expected a brilliant, superb, fantastic sequel. What a disappointment.'') = 1"
proof -
  let ?t = "''We expected a brilliant, superb, fantastic sequel. What a disappointment.''"
  have h: "\<exists>p \<in> set hope_disappointment_patterns. contains (lower ?t) p" by code_simp
  have d: "contains (lower ?t) ''disappointment''" by code_simp
  have n: "count_phrases strong_negative_phrases (lower ?t) = 2" by code_simp
  have p: "count_phrases strong_positive_phrases (lower ?t) = 3" by code_simp
  from expectation_framing_rule [OF h d]
  have "fst (keyword_counts ?t) = count_phrases strong_negative_phrases (lower ?t) + 1"
    and "int (snd (keyword_counts ?t)) =
           max 0 (int (count_phrases strong_positive_phrases (lower ?t)) - 2)"
    by blast+
  then show ?thesis by (simp add: n p)
qed







end
